theory Spec2Isabelle
  imports Complex_Main
begin

section \<open>Values handled by proxy.js\<close>

text \<open>
  The values that \<^verbatim>\<open>express.json\<close> hands to the handlers are the results of
  \<^verbatim>\<open>JSON.parse\<close>: null, booleans, numbers, strings, arrays and plain objects.
  An object is the list of its own enumerable properties in enumeration order; the
  keys of an object are pairwise distinct in JavaScript, and no theorem below needs
  that. \<^verbatim>\<open>undefined\<close> is not a JSON value: an expression that may be
  \<^verbatim>\<open>undefined\<close> has type \<open>json option\<close>, with \<open>None\<close> for it.

  A number is what \<^verbatim>\<open>JSON.parse\<close> returns for a number literal: a
  finite value, negative zero for \<^verbatim>\<open>-0\<close>, or an infinity for a literal
  outside the double range such as \<^verbatim>\<open>1e400\<close>; never NaN. \<open>Finite 0\<close>
  is positive zero. Strings are lists of characters, compared with
  \<^verbatim>\<open>===\<close> as lists.
\<close>

datatype number = Finite real | NegativeZero | PlusInfinity | MinusInfinity

datatype json =
    JNull
  | JBool bool
  | JNum number
  | JStr string
  | JArr "json list"
  | JObj "(string \<times> json) list"

text \<open>
  Errors are values. Every error the program can meet is an \<^verbatim>\<open>Error\<close>
  object with a message: the \<^verbatim>\<open>TypeError\<close> of a property read on
  \<^verbatim>\<open>null\<close> or of a failed conversion to a string, the
  \<^verbatim>\<open>RangeError\<close> of a recursive built-in that runs out of stack, and a
  rejection of \<^verbatim>\<open>fetch\<close>.
\<close>

datatype error = TypeError string | RangeError string | FetchError string

fun message :: "error \<Rightarrow> string" where
  "message (TypeError m) = m"
| "message (RangeError m) = m"
| "message (FetchError m) = m"

text \<open>
  How deep a value may nest before a recursive built-in runs out of stack
  depends on the engine and is a parameter of the model:
  \<open>toStringOverflows v\<close> says that converting \<open>v\<close> to a string ends in
  \<^verbatim>\<open>RangeError: Maximum call stack size exceeded\<close>, and
  \<open>stringifyOverflows v\<close> that \<^verbatim>\<open>JSON.stringify(v)\<close> does.
\<close>

record engine =
  toStringOverflows :: "json \<Rightarrow> bool"
  stringifyOverflows :: "json \<Rightarrow> bool"

subsection \<open>Own properties, property reads, truthiness\<close>

fun digitChar :: "nat \<Rightarrow> char" where
  "digitChar n = char_of (48 + n)"

text \<open>The decimal name of an array index, as a property key.\<close>

function indexKey :: "nat \<Rightarrow> string" where
  "indexKey n = (if n < 10 then [digitChar n] else indexKey (n div 10) @ [digitChar (n mod 10)])"
  by pat_completeness auto
termination
  by (relation "measure id") auto

text \<open>
  The own enumerable properties of a value, as the object spread \<^verbatim>\<open>{...v}\<close>
  and the rest pattern \<^verbatim>\<open>{...rest} = v\<close> copy them: the properties of an
  object, the elements of an array and the characters of a string under their
  indices, nothing for null, a boolean or a number.
\<close>

fun ownProps :: "json \<Rightarrow> (string \<times> json) list" where
  "ownProps (JObj kvs) = kvs"
| "ownProps (JArr xs) = zip (map indexKey [0..<length xs]) xs"
| "ownProps (JStr s) = zip (map indexKey [0..<length s]) (map (\<lambda>c. JStr [c]) s)"
| "ownProps JNull = []"
| "ownProps (JBool b) = []"
| "ownProps (JNum n) = []"

text \<open>
  \<^verbatim>\<open>v.k\<close> on a value other than null, for the property names the program
  reads (\<^verbatim>\<open>role\<close>, \<^verbatim>\<open>tool_calls\<close>, \<^verbatim>\<open>extra_content\<close>,
  \<^verbatim>\<open>google\<close>, \<^verbatim>\<open>thought_signature\<close>, \<^verbatim>\<open>messages\<close>,
  \<^verbatim>\<open>model\<close>): none of them is defined on a built-in prototype, so the
  read finds an own property or yields \<^verbatim>\<open>undefined\<close>.
\<close>

definition lookupProp :: "json \<Rightarrow> string \<Rightarrow> json option" where
  "lookupProp v k = map_of (ownProps v) k"

text \<open>\<^verbatim>\<open>v.k\<close>: a property read on null throws.\<close>

fun getProp :: "json \<Rightarrow> string \<Rightarrow> error + json option" where
  "getProp JNull k =
     Inl (TypeError (''Cannot read properties of null (reading '' @ [CHR 0x27] @ k @ [CHR 0x27] @ '')''))"
| "getProp v k = Inr (lookupProp v k)"

text \<open>\<^verbatim>\<open>v?.k\<close>: \<^verbatim>\<open>undefined\<close> when \<open>v\<close> is null or undefined.\<close>

fun optProp :: "json option \<Rightarrow> string \<Rightarrow> json option" where
  "optProp None k = None"
| "optProp (Some JNull) k = None"
| "optProp (Some v) k = lookupProp v k"

text \<open>
  The truthiness test of \<^verbatim>\<open>if (x)\<close> and \<^verbatim>\<open>x || y\<close>: undefined, null,
  false, both zeros and the empty string are falsy, everything else (every array and
  object included) is truthy.
\<close>

fun truthy :: "json option \<Rightarrow> bool" where
  "truthy None = False"
| "truthy (Some JNull) = False"
| "truthy (Some (JBool b)) = b"
| "truthy (Some (JNum n)) = (n \<noteq> Finite 0 \<and> n \<noteq> NegativeZero)"
| "truthy (Some (JStr s)) = (s \<noteq> [])"
| "truthy (Some (JArr xs)) = True"
| "truthy (Some (JObj kvs)) = True"

fun isArray :: "json option \<Rightarrow> bool" where
  "isArray (Some (JArr xs)) = True"
| "isArray v = False"

text \<open>The elements of a value that \<^verbatim>\<open>Array.isArray\<close> accepts.\<close>

fun elements :: "json option \<Rightarrow> json list" where
  "elements (Some (JArr xs)) = xs"
| "elements v = []"

text \<open>
  \<^verbatim>\<open>{...o, k: v}\<close> on the properties of \<open>o\<close>, for a key \<open>k\<close> that is not an
  array index: an existing property keeps its place and takes the new value, a new
  property goes last.
\<close>

primrec setProp :: "string \<Rightarrow> json \<Rightarrow> (string \<times> json) list \<Rightarrow> (string \<times> json) list" where
  "setProp k v [] = [(k, v)]"
| "setProp k v (p # ps) = (if fst p = k then (k, v) # ps else p # setProp k v ps)"

section \<open>Core injection logic\<close>

definition BYPASS_SIGNATURE :: string where
  "BYPASS_SIGNATURE = ''skip_thought_signature_validator''"

definition PATCHED_MODEL_ID :: string where
  "PATCHED_MODEL_ID = ''models/gemini-3.1-pro-preview-customtools''"

definition GOOGLE_BASE_URL :: string where
  "GOOGLE_BASE_URL = ''https://generativelanguage.googleapis.com''"

text \<open>\<^verbatim>\<open>toolCall?.extra_content?.google?.thought_signature\<close>\<close>

definition existingSignature :: "json \<Rightarrow> json option" where
  "existingSignature toolCall =
     optProp (optProp (optProp (Some toolCall) ''extra_content'') ''google'') ''thought_signature''"

text \<open>The value the injection stores under \<^verbatim>\<open>extra_content\<close>.\<close>

definition bypassContent :: json where
  "bypassContent = JObj [(''google'', JObj [(''thought_signature'', JStr BYPASS_SIGNATURE)])]"

text \<open>The callback of the inner \<^verbatim>\<open>map\<close> (lines 78 to 93).\<close>

definition patchToolCall :: "json \<Rightarrow> json" where
  "patchToolCall toolCall =
     (if truthy (existingSignature toolCall) then toolCall
      else JObj (setProp ''extra_content'' bypassContent (ownProps toolCall)))"

text \<open>
  The callback of the outer \<^verbatim>\<open>map\<close> (lines 72 to 96). \<^verbatim>\<open>message.role\<close>
  is a plain property read: it throws on a null message.
\<close>

definition patchMessage :: "json \<Rightarrow> error + json" where
  "patchMessage msg =
     (case getProp msg ''role'' of
        Inl e \<Rightarrow> Inl e
      | Inr role \<Rightarrow>
          (if role \<noteq> Some (JStr ''assistant'') \<or> \<not> isArray (lookupProp msg ''tool_calls'')
           then Inr msg
           else Inr (JObj (setProp ''tool_calls''
                            (JArr (map patchToolCall (elements (lookupProp msg ''tool_calls''))))
                            (ownProps msg)))))"

text \<open>\<^verbatim>\<open>xs.map(f)\<close> for a callback that may throw: the first throw ends the loop.\<close>

fun mapE :: "('a \<Rightarrow> error + 'b) \<Rightarrow> 'a list \<Rightarrow> error + 'b list" where
  "mapE f [] = Inr []"
| "mapE f (x # xs) =
     (case f x of
        Inl e \<Rightarrow> Inl e
      | Inr y \<Rightarrow> (case mapE f xs of Inl e \<Rightarrow> Inl e | Inr ys \<Rightarrow> Inr (y # ys)))"

definition injectThoughtSignatures :: "json option \<Rightarrow> error + json option" where
  "injectThoughtSignatures messages =
     (case messages of
        Some (JArr msgs) \<Rightarrow>
          (case mapE patchMessage msgs of Inl e \<Rightarrow> Inl e | Inr out \<Rightarrow> Inr (Some (JArr out)))
      | _ \<Rightarrow> Inr messages)"

section \<open>Requests, outbound calls and responses\<close>

text \<open>
  The request as a route handler sees it: \<^verbatim>\<open>req.method\<close>, \<^verbatim>\<open>req.path\<close>,
  \<^verbatim>\<open>req.url\<close> (the path with its query string), \<^verbatim>\<open>req.headers\<close>
  (the headers that came in, under their lower-case names) and \<^verbatim>\<open>req.body\<close>
  as \<^verbatim>\<open>express.json\<close> left it (\<open>None\<close> for \<^verbatim>\<open>undefined\<close>).
\<close>

record request =
  reqMethod :: string
  path :: string
  url :: string
  headers :: "(string \<times> string) list"
  body :: "json option"

text \<open>\<^verbatim>\<open>req.headers[name]\<close>: \<open>None\<close> for a header that did not come in.\<close>

definition header :: "request \<Rightarrow> string \<Rightarrow> string option" where
  "header req name = map_of (headers req) name"

text \<open>
  The arguments of one \<^verbatim>\<open>fetch(url, options)\<close>. \<open>callBody\<close> is the JSON
  document that \<^verbatim>\<open>JSON.stringify\<close> writes, \<open>None\<close> when no body is attached.
\<close>

record fetchCall =
  callUrl :: string
  callMethod :: string
  callHeaders :: "(string \<times> string) list"
  callBody :: "json option"

text \<open>
  What the handlers read of the upstream response: its status, its
  \<^verbatim>\<open>content-type\<close> header (\<open>None\<close> for \<^verbatim>\<open>null\<close>) and its body stream,
  which is piped and never inspected.
\<close>

record 's upstreamResponse =
  status :: nat
  contentType :: "string option"
  stream :: 's

text \<open>
  What is done to \<^verbatim>\<open>res\<close>. \<open>Piped s ct b\<close>: a handler calls
  \<^verbatim>\<open>res.status(s)\<close>, calls \<^verbatim>\<open>res.set("content-type", v)\<close> when
  \<open>ct = Some v\<close>, and pipes the stream \<open>b\<close> into \<^verbatim>\<open>res\<close>; what
  Express makes of the value given to \<^verbatim>\<open>res.set\<close> (it may append a
  charset) is not part of the model. \<open>ProxyError s v\<close>: a handler calls
  \<^verbatim>\<open>res.status(s).json(v)\<close>. \<open>FinalHandler s\<close>: Express's own final error
  handler answers, with the status \<open>s\<close> of the error it was given.
\<close>

datatype 's response =
    Piped nat "string option" 's
  | ProxyError nat json
  | FinalHandler nat

section \<open>Serialising\<close>

text \<open>
  The JSON document that \<^verbatim>\<open>JSON.stringify\<close> writes for a value, as the
  value that document denotes: an infinity is written \<^verbatim>\<open>null\<close>,
  negative zero is written \<^verbatim>\<open>0\<close>, everything else is written as it is. A JSON value has no \<^verbatim>\<open>toJSON\<close> method, since
  none of its properties is callable.
\<close>

fun jsonDocument :: "json \<Rightarrow> json" where
  "jsonDocument JNull = JNull"
| "jsonDocument (JBool b) = JBool b"
| "jsonDocument (JNum (Finite r)) = JNum (Finite r)"
| "jsonDocument (JNum NegativeZero) = JNum (Finite 0)"
| "jsonDocument (JNum PlusInfinity) = JNull"
| "jsonDocument (JNum MinusInfinity) = JNull"
| "jsonDocument (JStr s) = JStr s"
| "jsonDocument (JArr xs) = JArr (map jsonDocument xs)"
| "jsonDocument (JObj kvs) = JObj (map (\<lambda>(k, v). (k, jsonDocument v)) kvs)"


text \<open>\<^verbatim>\<open>JSON.stringify(v)\<close>\<close>

definition stringify :: "engine \<Rightarrow> json \<Rightarrow> error + json" where
  "stringify eng v =
     (if stringifyOverflows eng v then Inl (RangeError ''Maximum call stack size exceeded'')
      else Inr (jsonDocument v))"

text \<open>
  An array index as a property key: the decimal name, without leading zeros, of
  a number below \<open>2\<^sup>3\<^sup>2 - 1\<close>.
\<close>

definition isDigit :: "char \<Rightarrow> bool" where
  "isDigit c = (c \<in> set ''0123456789'')"

definition digitsValue :: "string \<Rightarrow> int" where
  "digitsValue k = foldl (\<lambda>n c. 10 * n + (of_char c - 48)) 0 k"

definition isIndexKey :: "string \<Rightarrow> bool" where
  "isIndexKey k =
     (k \<noteq> [] \<and> list_all isDigit k \<and> (k = ''0'' \<or> hd k \<noteq> CHR ''0'') \<and> digitsValue k < 4294967295)"

text \<open>
  The properties of an object literal in the order the engine keeps them: those
  under array-index keys first, then the others in the order in which the literal
  names them. The index keys come from one spread object here and are in
  ascending order already.
\<close>

definition indexFirst :: "(string \<times> json) list \<Rightarrow> (string \<times> json) list" where
  "indexFirst ps = filter (\<lambda>p. isIndexKey (fst p)) ps @ filter (\<lambda>p. \<not> isIndexKey (fst p)) ps"

section \<open>Primary intercept route\<close>

text \<open>\<^verbatim>\<open>x ?? d\<close>: the default when \<open>x\<close> is null or undefined.\<close>

fun orDefault :: "json option \<Rightarrow> json \<Rightarrow> json" where
  "orDefault None d = d"
| "orDefault (Some JNull) d = d"
| "orDefault (Some v) d = v"

text \<open>\<^verbatim>\<open>const body = req.body ?? {}\<close>\<close>

definition parsedBody :: "request \<Rightarrow> json" where
  "parsedBody req = orDefault (body req) (JObj [])"

text \<open>\<^verbatim>\<open>const { messages, model, ...rest } = body\<close>: the rest pattern.\<close>

definition restProps :: "json \<Rightarrow> (string \<times> json) list" where
  "restProps b = filter (\<lambda>p. fst p \<noteq> ''messages'' \<and> fst p \<noteq> ''model'') (ownProps b)"

text \<open>
  \<^verbatim>\<open>JSON.stringify\<close> leaves out a property whose value is
  \<^verbatim>\<open>undefined\<close>. In the object literal of line 152 only \<^verbatim>\<open>messages\<close>
  and \<^verbatim>\<open>model\<close> can be \<^verbatim>\<open>undefined\<close>; the properties spread from
  \<^verbatim>\<open>rest\<close> are JSON values.
\<close>

fun definedProps :: "(string \<times> json option) list \<Rightarrow> (string \<times> json) list" where
  "definedProps [] = []"
| "definedProps ((k, None) # ps) = definedProps ps"
| "definedProps ((k, Some v) # ps) = (k, v) # definedProps ps"

text \<open>\<^verbatim>\<open>{ messages: patchedMessages, model, ...rest }\<close>, as line 152 serialises it.\<close>

definition outboundObject :: "json option \<Rightarrow> json option \<Rightarrow> (string \<times> json) list \<Rightarrow> json" where
  "outboundObject patched model rest =
     JObj (indexFirst (definedProps [(''messages'', patched), (''model'', model)] @ rest))"

text \<open>\<^verbatim>\<open>requiresPatch ? injectThoughtSignatures(messages) : messages\<close>\<close>

definition patchedMessages :: "json option \<Rightarrow> json option \<Rightarrow> error + json option" where
  "patchedMessages model messages =
     (if model = Some (JStr PATCHED_MODEL_ID) then injectThoughtSignatures messages
      else Inr messages)"

text \<open>
  The log line of lines 145 to 147 turns \<^verbatim>\<open>model ?? "unknown"\<close> and
  \<^verbatim>\<open>patchedMessages?.length ?? 0\<close> into strings. Where the conversion does
  not run out of stack, it throws a TypeError on an object that has a property
  named \<^verbatim>\<open>toString\<close> (a JSON value is never callable, and the inherited
  \<^verbatim>\<open>valueOf\<close> returns the object itself), and on an array with such
  an element, whose elements \<^verbatim>\<open>join\<close> converts one by one, null
  elements apart.
\<close>

fun toStringThrows :: "json \<Rightarrow> bool" where
  "toStringThrows (JObj kvs) = (''toString'' \<in> set (map fst kvs))"
| "toStringThrows (JArr xs) = list_ex toStringThrows xs"
| "toStringThrows JNull = False"
| "toStringThrows (JBool b) = False"
| "toStringThrows (JNum n) = False"
| "toStringThrows (JStr s) = False"

definition templateString :: "engine \<Rightarrow> json \<Rightarrow> error + unit" where
  "templateString eng v =
     (if toStringOverflows eng v then Inl (RangeError ''Maximum call stack size exceeded'')
      else if toStringThrows v then Inl (TypeError ''Cannot convert object to primitive value'')
      else Inr ())"

text \<open>
  \<^verbatim>\<open>v?.length\<close>: the length of an array or a string, the property of
  that name of an object.
\<close>

fun optLength :: "json option \<Rightarrow> json option" where
  "optLength None = None"
| "optLength (Some JNull) = None"
| "optLength (Some (JArr xs)) = Some (JNum (Finite (real (length xs))))"
| "optLength (Some (JStr s)) = Some (JNum (Finite (real (length s))))"
| "optLength (Some (JObj kvs)) = map_of kvs ''length''"
| "optLength (Some (JBool b)) = None"
| "optLength (Some (JNum n)) = None"

definition logRequest :: "engine \<Rightarrow> json option \<Rightarrow> json option \<Rightarrow> error + unit" where
  "logRequest eng model patched =
     (case templateString eng (orDefault model (JStr ''unknown'')) of
        Inl err \<Rightarrow> Inl err
      | Inr u \<Rightarrow> templateString eng (orDefault (optLength patched) (JNum (Finite 0))))"

text \<open>The \<^verbatim>\<open>forwardHeaders\<close> object of the route (lines 137 to 143).\<close>

definition forwardHeadersA :: "request \<Rightarrow> (string \<times> string) list" where
  "forwardHeadersA req =
     (''content-type'',
        (case header req ''content-type'' of
           None \<Rightarrow> ''application/json''
         | Some v \<Rightarrow> if v \<noteq> [] then v else ''application/json''))
     # (case header req ''authorization'' of
          None \<Rightarrow> []
        | Some v \<Rightarrow> if v \<noteq> [] then [(''authorization'', v)] else [])"

text \<open>
  The handler up to the arguments of its \<^verbatim>\<open>fetch\<close> (lines 119 to 153): an
  error when patching the messages, writing the log line or serialising the body
  throws.
\<close>

definition routeA_call :: "engine \<Rightarrow> request \<Rightarrow> error + fetchCall" where
  "routeA_call eng req =
     (let messages = lookupProp (parsedBody req) ''messages'';
          model = lookupProp (parsedBody req) ''model'';
          rest = restProps (parsedBody req)
      in case patchedMessages model messages of
           Inl err \<Rightarrow> Inl err
         | Inr patched \<Rightarrow>
             (case logRequest eng model patched of
                Inl err \<Rightarrow> Inl err
              | Inr u \<Rightarrow>
                  (case stringify eng (outboundObject patched model rest) of
                     Inl err \<Rightarrow> Inl err
                   | Inr doc \<Rightarrow>
                       Inr \<lparr> callUrl = GOOGLE_BASE_URL @ ''/v1beta/openai/chat/completions'',
                             callMethod = ''POST'',
                             callHeaders = forwardHeadersA req,
                             callBody = Some doc \<rparr>)))"

text \<open>\<^verbatim>\<open>res.status(502).json({ error: "proxy_error", details: err.message })\<close>\<close>

definition proxyError :: "error \<Rightarrow> 's response" where
  "proxyError err = ProxyError 502 (JObj [(''error'', JStr ''proxy_error''), (''details'', JStr (message err))])"

text \<open>
  The \<^verbatim>\<open>catch\<close> block of both handlers (lines 164 to 167 and 212 to 215):
  it logs the error and answers; nothing in it throws.
\<close>

definition catchBlock :: "error \<Rightarrow> error + 's response" where
  "catchBlock err = Inr (proxyError err)"

text \<open>
  \<^verbatim>\<open>try { ... } catch (err) { ... }\<close> around a block that has issued the
  outbound call \<open>call\<close>, if any, and has ended with an error or a response. An
  error of the \<^verbatim>\<open>catch\<close> block would leave the handler.
\<close>

definition tryCatch :: "fetchCall option \<times> (error + 's response) \<Rightarrow> fetchCall option \<times> (error + 's response)" where
  "tryCatch block =
     (case block of
        (call, Inl err) \<Rightarrow> (call, catchBlock err)
      | (call, Inr r) \<Rightarrow> (call, Inr r))"

text \<open>
  The upstream response passed through: its status, its content type when
  \<^verbatim>\<open>if (ct)\<close> holds, its body piped.
\<close>

definition passThrough :: "'s upstreamResponse \<Rightarrow> 's response" where
  "passThrough up =
     Piped (status up)
       (case contentType up of None \<Rightarrow> None | Some ct \<Rightarrow> if ct \<noteq> [] then Some ct else None)
       (stream up)"

text \<open>
  The rest of a \<^verbatim>\<open>try\<close> block once the arguments of \<^verbatim>\<open>fetch\<close>
  are there or have failed. A handler calls \<^verbatim>\<open>fetch\<close> at most once;
  \<open>upstream\<close> is what that call does, rejecting with an error or resolving with
  a response.
\<close>

definition forward :: "error + fetchCall \<Rightarrow> error + 's upstreamResponse \<Rightarrow> fetchCall option \<times> (error + 's response)" where
  "forward prepared upstream =
     (case prepared of
        Inl err \<Rightarrow> (None, Inl err)
      | Inr call \<Rightarrow>
          (case upstream of
             Inl err \<Rightarrow> (Some call, Inl err)
           | Inr up \<Rightarrow> (Some call, Inr (passThrough up))))"

text \<open>
  The handler of \<^verbatim>\<open>POST /v1beta/openai/v1/chat/completions\<close>. The result is
  the outbound call the handler issued, if it got that far, and the response it
  sent, or the error that left it.
\<close>

definition routeA :: "engine \<Rightarrow> error + 's upstreamResponse \<Rightarrow> request \<Rightarrow> fetchCall option \<times> (error + 's response)" where
  "routeA eng upstream req = tryCatch (forward (routeA_call eng req) upstream)"

section \<open>Catch-all passthrough\<close>

text \<open>The allow-list loop of lines 186 to 191.\<close>

definition forwardHeadersB :: "request \<Rightarrow> (string \<times> string) list" where
  "forwardHeadersB req =
     concat (map (\<lambda>name. case header req name of
                            None \<Rightarrow> []
                          | Some v \<Rightarrow> if v \<noteq> [] then [(name, v)] else [])
                 [''authorization'', ''content-type'', ''accept''])"

text \<open>
  The body attached by lines 199 to 201: \<^verbatim>\<open>JSON.stringify(req.body)\<close> for a
  method other than GET and HEAD and a truthy body, none otherwise.
\<close>

definition attachedBody :: "engine \<Rightarrow> request \<Rightarrow> error + json option" where
  "attachedBody eng req =
     (case body req of
        None \<Rightarrow> Inr None
      | Some v \<Rightarrow>
          (if reqMethod req \<noteq> ''GET'' \<and> reqMethod req \<noteq> ''HEAD'' \<and> truthy (Some v)
           then (case stringify eng v of Inl err \<Rightarrow> Inl err | Inr doc \<Rightarrow> Inr (Some doc))
           else Inr None))"

text \<open>The handler up to the arguments of its \<^verbatim>\<open>fetch\<close> (lines 181 to 205).\<close>

definition routeB_call :: "engine \<Rightarrow> request \<Rightarrow> error + fetchCall" where
  "routeB_call eng req =
     (let qs = (if CHR ''?'' \<in> set (url req) then dropWhile (\<lambda>c. c \<noteq> CHR ''?'') (url req) else [])
      in case attachedBody eng req of
           Inl err \<Rightarrow> Inl err
         | Inr attached \<Rightarrow>
             Inr \<lparr> callUrl = GOOGLE_BASE_URL @ path req @ qs,
                   callMethod = reqMethod req,
                   callHeaders = forwardHeadersB req,
                   callBody = attached \<rparr>)"

definition routeB :: "engine \<Rightarrow> error + 's upstreamResponse \<Rightarrow> request \<Rightarrow> fetchCall option \<times> (error + 's response)" where
  "routeB eng upstream req = tryCatch (forward (routeB_call eng req) upstream)"

section \<open>The application\<close>

definition CLIENT_PATH :: string where
  "CLIENT_PATH = ''/v1beta/openai/v1/chat/completions''"

definition lowerChar :: "char \<Rightarrow> char" where
  "lowerChar c = (let n = (of_char c :: nat) in if 65 \<le> n \<and> n \<le> 90 then char_of (n + 32) else c)"

text \<open>
  Express matches the path of \<^verbatim>\<open>app.post(path, ...)\<close> with its default
  options: letter case is ignored and one trailing slash is allowed.
\<close>

definition matchesClientPath :: "string \<Rightarrow> bool" where
  "matchesClientPath p = (map lowerChar p = CLIENT_PATH \<or> map lowerChar p = CLIENT_PATH @ ''/'')"

text \<open>The two routes in the order of their registration.\<close>

definition dispatch :: "engine \<Rightarrow> error + 's upstreamResponse \<Rightarrow> request \<Rightarrow> fetchCall option \<times> (error + 's response)" where
  "dispatch eng upstream req =
     (if reqMethod req = ''POST'' \<and> matchesClientPath (path req) then routeA eng upstream req
      else routeB eng upstream req)"

text \<open>
  \<^verbatim>\<open>app.use(express.json({ limit: "50mb" }))\<close> runs before both routes. When
  it cannot parse the body it passes an error to \<^verbatim>\<open>next\<close>: status 400 for a
  body that is not JSON, status 413 for a body over the limit. The program
  registers no error-handling middleware, so Express skips the routes and its
  final handler answers with the status of that error. The parser and the final
  handler are library code; the outcome of the parser is part of the input here.
\<close>

datatype parseFailure = Malformed | TooLarge

fun failureStatus :: "parseFailure \<Rightarrow> nat" where
  "failureStatus Malformed = 400"
| "failureStatus TooLarge = 413"

definition app :: "engine \<Rightarrow> parseFailure option \<Rightarrow> error + 's upstreamResponse \<Rightarrow> request \<Rightarrow> fetchCall option \<times> (error + 's response)" where
  "app eng parseError upstream req =
     (case parseError of
        Some failure \<Rightarrow> (None, Inr (FinalHandler (failureStatus failure)))
      | None \<Rightarrow> dispatch eng upstream req)"

section \<open>The process\<close>

text \<open>
  The handlers are \<^verbatim>\<open>async\<close> functions and nothing awaits them: an error
  that leaves one is an unhandled rejection, on which Node ends the process. A
  process that has ended answers no request. The handlers keep no state; the
  process is listening or it is not.
\<close>

datatype process = Listening | Terminated

fun step :: "engine \<Rightarrow> process \<Rightarrow> parseFailure option \<times> (error + 's upstreamResponse) \<times> request \<Rightarrow>
    (fetchCall option \<times> 's response option) \<times> process" where
  "step eng Terminated inbound = ((None, None), Terminated)"
| "step eng Listening (parseError, upstream, req) =
     (case app eng parseError upstream req of
        (call, Inl err) \<Rightarrow> ((call, None), Terminated)
      | (call, Inr r) \<Rightarrow> ((call, Some r), Listening))"

fun serve :: "engine \<Rightarrow> process \<Rightarrow> (parseFailure option \<times> (error + 's upstreamResponse) \<times> request) list \<Rightarrow>
    (fetchCall option \<times> 's response option) list \<times> process" where
  "serve eng p [] = ([], p)"
| "serve eng p (inbound # rest) =
     (case step eng p inbound of
        (out, p') \<Rightarrow> (case serve eng p' rest of (outs, p'') \<Rightarrow> (out # outs, p'')))"

section \<open>Example requests\<close>

text \<open>How deep a value nests arrays and objects.\<close>

fun nesting :: "json \<Rightarrow> nat" where
  "nesting (JArr xs) = Suc (foldr (\<lambda>x n. max (nesting x) n) xs 0)"
| "nesting (JObj kvs) = Suc (foldr (\<lambda>p n. max (nesting (snd p)) n) kvs 0)"
| "nesting JNull = 0"
| "nesting (JBool b) = 0"
| "nesting (JNum n) = 0"
| "nesting (JStr s) = 0"

text \<open>An engine whose recursive built-ins run out of stack beyond a thousand levels.\<close>

definition exampleEngine :: engine where
  "exampleEngine =
     \<lparr> toStringOverflows = (\<lambda>v. 1000 < nesting v), stringifyOverflows = (\<lambda>v. 1000 < nesting v) \<rparr>"

text \<open>An engine with room for three levels only.\<close>

definition tinyEngine :: engine where
  "tinyEngine =
     \<lparr> toStringOverflows = (\<lambda>v. 3 < nesting v), stringifyOverflows = (\<lambda>v. 3 < nesting v) \<rparr>"

text \<open>
  A conversation with a user message and an assistant message holding two tool
  calls, the first without a signature and the second with one, and a request that
  carries it for a given model, with a header outside the allow-list.
\<close>

definition exampleToolCall :: json where
  "exampleToolCall = JObj [(''id'', JStr ''1''), (''function'', JObj [])]"

definition signedToolCall :: json where
  "signedToolCall =
     JObj [(''id'', JStr ''2''),
           (''extra_content'', JObj [(''google'', JObj [(''thought_signature'', JStr ''abc'')])])]"

definition exampleMessages :: "json list" where
  "exampleMessages =
     [JObj [(''role'', JStr ''user''), (''content'', JStr ''hi'')],
      JObj [(''role'', JStr ''assistant''), (''tool_calls'', JArr [exampleToolCall, signedToolCall])]]"

text \<open>
  A tool call without a signature that holds other things under
  \<^verbatim>\<open>extra_content\<close>.
\<close>

definition vendorToolCall :: json where
  "vendorToolCall =
     JObj [(''id'', JStr ''3''),
           (''extra_content'', JObj [(''vendor'', JStr ''x''), (''google'', JObj [(''keep'', JStr ''k'')])])]"

text \<open>The same conversation with the bypass signature in the first tool call.\<close>

definition patchedExample :: "json list" where
  "patchedExample =
     [JObj [(''role'', JStr ''user''), (''content'', JStr ''hi'')],
      JObj [(''role'', JStr ''assistant''),
            (''tool_calls'', JArr
               [JObj [(''id'', JStr ''1''), (''function'', JObj []),
                      (''extra_content'',
                       JObj [(''google'', JObj [(''thought_signature'', JStr ''skip_thought_signature_validator'')])])],
                signedToolCall])]]"

definition exampleRequest :: "string \<Rightarrow> request" where
  "exampleRequest model =
     \<lparr> reqMethod = ''POST'',
       path = ''/v1beta/openai/v1/chat/completions'',
       url = ''/v1beta/openai/v1/chat/completions'',
       headers = [(''x-custom'', ''secret''), (''authorization'', ''Bearer T''),
                  (''content-type'', ''application/json'')],
       body = Some (JObj [(''model'', JStr model), (''messages'', JArr exampleMessages),
                          (''stream'', JBool True)]) \<rparr>"

text \<open>
  A request on the intercept route with a given body and no headers, and an
  upstream that answers.
\<close>

definition postRequest :: "json \<Rightarrow> request" where
  "postRequest b =
     \<lparr> reqMethod = ''POST'',
       path = ''/v1beta/openai/v1/chat/completions'',
       url = ''/v1beta/openai/v1/chat/completions'',
       headers = [(''content-type'', ''application/json'')],
       body = Some b \<rparr>"

definition upstreamOk :: "error + unit upstreamResponse" where
  "upstreamOk = Inr \<lparr> status = 200, contentType = Some ''application/json'', stream = () \<rparr>"

section \<open>Properties of the building blocks\<close>

lemma map_of_setProp: "map_of (setProp k v ps) = (map_of ps)(k \<mapsto> v)"
  by (induction ps) auto

lemma setProp_idem: "setProp k v (setProp k v' ps) = setProp k v ps"
  by (induction ps) auto

lemma filter_setProp:
  "filter (\<lambda>p. fst p \<noteq> k) (setProp k v ps) = filter (\<lambda>p. fst p \<noteq> k) ps"
  by (induction ps) auto


lemma isArray_iff: "isArray v \<longleftrightarrow> (\<exists>xs. v = Some (JArr xs))"
  by (cases v rule: isArray.cases) simp_all

lemma getProp_nonnull: "msg \<noteq> JNull \<Longrightarrow> getProp msg k = Inr (lookupProp msg k)"
  by (cases msg) simp_all

lemma lookupProp_JNull: "lookupProp JNull k = None"
  by (simp add: lookupProp_def)

subsection \<open>The loop\<close>

lemma mapE_Inr_length: "mapE f xs = Inr ys \<Longrightarrow> length ys = length xs"
  by (induction xs arbitrary: ys) (auto split: sum.splits)

lemma mapE_Inr_nth: "mapE f xs = Inr ys \<Longrightarrow> i < length xs \<Longrightarrow> f (xs ! i) = Inr (ys ! i)"
proof (induction xs arbitrary: ys i)
  case Nil
  then show ?case by simp
next
  case (Cons x xs)
  then show ?case by (cases i) (auto split: sum.splits)
qed

lemma mapE_fixed:
  "mapE f xs = Inr ys \<Longrightarrow> (\<And>x y. f x = Inr y \<Longrightarrow> f y = Inr y) \<Longrightarrow> mapE f ys = Inr ys"
  by (induction xs arbitrary: ys) (auto split: sum.splits)

lemma mapE_total:
  "(\<And>x. x \<in> set xs \<Longrightarrow> \<exists>y. f x = Inr y) \<Longrightarrow> \<exists>ys. mapE f xs = Inr ys"
proof (induction xs)
  case Nil
  then show ?case by simp
next
  case (Cons x xs)
  from Cons.prems obtain y where y: "f x = Inr y" by auto
  from Cons.prems have "\<exists>ys. mapE f xs = Inr ys" by (intro Cons.IH) auto
  then obtain ys where "mapE f xs = Inr ys" ..
  with y show ?case by simp
qed

subsection \<open>One tool call\<close>

lemma existingSignature_injected:
  "existingSignature (JObj (setProp ''extra_content'' bypassContent ps)) = Some (JStr BYPASS_SIGNATURE)"
  by (simp add: existingSignature_def lookupProp_def map_of_setProp bypassContent_def)

lemma BYPASS_SIGNATURE_nonempty: "BYPASS_SIGNATURE \<noteq> []"
  by (simp add: BYPASS_SIGNATURE_def)

lemma patchToolCall_idem: "patchToolCall (patchToolCall tc) = patchToolCall tc"
  by (simp add: patchToolCall_def existingSignature_injected BYPASS_SIGNATURE_nonempty)

lemma patchToolCall_twice: "patchToolCall \<circ> patchToolCall = patchToolCall"
  by (rule ext) (simp add: patchToolCall_idem)

lemma patchToolCall_cases:
  "(if truthy (existingSignature tc) then patchToolCall tc = tc
    else \<exists>props. patchToolCall tc = JObj props \<and>
           map_of props ''extra_content'' =
             Some (JObj [(''google'', JObj [(''thought_signature'', JStr ''skip_thought_signature_validator'')])]) \<and>
           existingSignature (patchToolCall tc) = Some (JStr ''skip_thought_signature_validator'') \<and>
           filter (\<lambda>p. fst p \<noteq> ''extra_content'') props =
             filter (\<lambda>p. fst p \<noteq> ''extra_content'') (ownProps tc))"
proof (cases "truthy (existingSignature tc)")
  case True
  then show ?thesis by (simp add: patchToolCall_def)
next
  case False
  have "existingSignature (JObj (setProp ''extra_content'' bypassContent (ownProps tc))) =
          Some (JStr ''skip_thought_signature_validator'')"
    by (simp add: existingSignature_injected) (simp add: BYPASS_SIGNATURE_def)
  moreover have "map_of (setProp ''extra_content'' bypassContent (ownProps tc)) ''extra_content'' =
          Some (JObj [(''google'', JObj [(''thought_signature'', JStr ''skip_thought_signature_validator'')])])"
    by (simp add: map_of_setProp bypassContent_def BYPASS_SIGNATURE_def)
  ultimately show ?thesis
    using False by (simp add: patchToolCall_def filter_setProp)
qed

subsection \<open>One message\<close>

lemma patchMessage_unchanged:
  "msg \<noteq> JNull \<Longrightarrow>
   lookupProp msg ''role'' \<noteq> Some (JStr ''assistant'') \<or> \<not> isArray (lookupProp msg ''tool_calls'') \<Longrightarrow>
   patchMessage msg = Inr msg"
  by (auto simp add: patchMessage_def getProp_nonnull)

lemma patchMessage_patched:
  "lookupProp msg ''role'' = Some (JStr ''assistant'') \<Longrightarrow>
   lookupProp msg ''tool_calls'' = Some (JArr tcs) \<Longrightarrow>
   patchMessage msg = Inr (JObj (setProp ''tool_calls'' (JArr (map patchToolCall tcs)) (ownProps msg)))"
  by (cases "msg = JNull") (auto simp add: patchMessage_def getProp_nonnull lookupProp_JNull)

lemma patchMessage_Inr_nonnull: "patchMessage msg = Inr out \<Longrightarrow> msg \<noteq> JNull"
  by (auto simp add: patchMessage_def)

lemma patchMessage_total: "msg \<noteq> JNull \<Longrightarrow> \<exists>out. patchMessage msg = Inr out"
  by (auto simp add: patchMessage_def getProp_nonnull split: option.splits json.splits)

lemma patchMessage_fixed: "patchMessage msg = Inr out \<Longrightarrow> patchMessage out = Inr out"
proof (cases "lookupProp msg ''role'' = Some (JStr ''assistant'') \<and> isArray (lookupProp msg ''tool_calls'')")
  case False
  assume a: "patchMessage msg = Inr out"
  then have "msg \<noteq> JNull" by (rule patchMessage_Inr_nonnull)
  with False have "patchMessage msg = Inr msg" by (intro patchMessage_unchanged) auto
  with a show ?thesis by simp
next
  case True
  assume a: "patchMessage msg = Inr out"
  from True obtain tcs where t: "lookupProp msg ''tool_calls'' = Some (JArr tcs)"
    by (auto simp add: isArray_iff)
  let ?out = "JObj (setProp ''tool_calls'' (JArr (map patchToolCall tcs)) (ownProps msg))"
  from True t a have o: "out = ?out" by (simp add: patchMessage_patched)
  have r: "lookupProp ?out ''role'' = Some (JStr ''assistant'')"
    using True by (simp add: lookupProp_def map_of_setProp)
  have c: "lookupProp ?out ''tool_calls'' = Some (JArr (map patchToolCall tcs))"
    by (simp add: lookupProp_def map_of_setProp)
  show ?thesis
    unfolding o by (simp add: patchMessage_patched [OF r c] setProp_idem patchToolCall_twice)
qed

subsection \<open>The whole array\<close>

lemma inject_fixed:
  "injectThoughtSignatures M = Inr M' \<Longrightarrow> injectThoughtSignatures M' = Inr M'"
  by (auto simp add: injectThoughtSignatures_def mapE_fixed [OF _ patchMessage_fixed]
      split: option.splits json.splits sum.splits)

lemma inject_not_array: "\<not> isArray M \<Longrightarrow> injectThoughtSignatures M = Inr M"
  by (auto simp add: injectThoughtSignatures_def split: option.splits json.splits)

lemma inject_array_Inr:
  "injectThoughtSignatures (Some (JArr msgs)) = Inr out \<Longrightarrow>
   \<exists>outs. out = Some (JArr outs) \<and> mapE patchMessage msgs = Inr outs"
  by (auto simp add: injectThoughtSignatures_def split: sum.splits)

lemma inject_total:
  assumes "JNull \<notin> set msgs"
  shows "\<exists>outs. injectThoughtSignatures (Some (JArr msgs)) = Inr (Some (JArr outs)) \<and>
           length outs = length msgs"
proof -
  from assms have "\<exists>ys. mapE patchMessage msgs = Inr ys"
    by (intro mapE_total patchMessage_total) auto
  then obtain ys where "mapE patchMessage msgs = Inr ys" ..
  then show ?thesis by (simp add: injectThoughtSignatures_def mapE_Inr_length)
qed

lemma mapE_Inl_iff: "(\<exists>e. mapE f xs = Inl e) \<longleftrightarrow> (\<exists>x \<in> set xs. \<exists>e. f x = Inl e)"
  by (induction xs) (auto split: sum.splits)

lemma patchMessage_Inl_iff: "(\<exists>e. patchMessage msg = Inl e) \<longleftrightarrow> msg = JNull"
proof (cases "msg = JNull")
  case True
  then show ?thesis by (simp add: patchMessage_def)
next
  case False
  with patchMessage_total [OF False] show ?thesis by auto
qed

text \<open>The transform throws exactly on an array that has a null element.\<close>

lemma inject_throws_iff:
  "(\<exists>e. injectThoughtSignatures M = Inl e) \<longleftrightarrow> (\<exists>msgs. M = Some (JArr msgs) \<and> JNull \<in> set msgs)"
proof (cases "isArray M")
  case False
  then show ?thesis by (auto simp add: inject_not_array)
next
  case True
  then obtain msgs where M: "M = Some (JArr msgs)" by (auto simp add: isArray_iff)
  have "(\<exists>e. injectThoughtSignatures (Some (JArr msgs)) = Inl e) \<longleftrightarrow> (\<exists>e. mapE patchMessage msgs = Inl e)"
    by (auto simp add: injectThoughtSignatures_def split: sum.splits)
  also have "\<dots> \<longleftrightarrow> JNull \<in> set msgs"
    unfolding mapE_Inl_iff by (auto simp add: patchMessage_Inl_iff)
  finally show ?thesis using M by simp
qed

lemma inject_example:
  "injectThoughtSignatures (Some (JArr exampleMessages)) = Inr (Some (JArr patchedExample))"
  by (simp add: injectThoughtSignatures_def patchMessage_def patchToolCall_def existingSignature_def
      lookupProp_def bypassContent_def BYPASS_SIGNATURE_def exampleMessages_def exampleToolCall_def
      signedToolCall_def patchedExample_def)

lemma patchedExample_differs: "patchedExample \<noteq> exampleMessages"
  by (simp add: patchedExample_def exampleMessages_def exampleToolCall_def)

subsection \<open>Serialising\<close>






subsection \<open>The outbound call of the intercept route\<close>

lemma routeA_call_Inr:
  "routeA_call eng req = Inr call \<Longrightarrow>
   \<exists>patched. patchedMessages (lookupProp (parsedBody req) ''model'')
                 (lookupProp (parsedBody req) ''messages'') = Inr patched \<and>
     logRequest eng (lookupProp (parsedBody req) ''model'') patched = Inr () \<and>
     \<not> stringifyOverflows eng
         (outboundObject patched (lookupProp (parsedBody req) ''model'') (restProps (parsedBody req))) \<and>
     call = \<lparr> callUrl = GOOGLE_BASE_URL @ ''/v1beta/openai/chat/completions'',
              callMethod = ''POST'',
              callHeaders = forwardHeadersA req,
              callBody = Some (jsonDocument
                (outboundObject patched (lookupProp (parsedBody req) ''model'') (restProps (parsedBody req)))) \<rparr>"
  by (auto simp add: routeA_call_def Let_def stringify_def split: sum.splits if_splits)





lemma forwardHeadersA_keys:
  "fst ` set (forwardHeadersA req) \<subseteq> {''content-type'', ''authorization''}"
  by (auto simp add: forwardHeadersA_def split: option.splits if_splits)

lemma forwardHeadersA_distinct: "distinct (map fst (forwardHeadersA req))"
  by (auto simp add: forwardHeadersA_def split: option.splits)

lemma forwardHeadersA_content_type:
  "map_of (forwardHeadersA req) ''content-type'' =
     Some (case header req ''content-type'' of
             None \<Rightarrow> ''application/json''
           | Some v \<Rightarrow> if v = [] then ''application/json'' else v)"
  by (auto simp add: forwardHeadersA_def split: option.splits)

lemma forwardHeadersA_authorization:
  "map_of (forwardHeadersA req) ''authorization'' =
     (case header req ''authorization'' of
        None \<Rightarrow> None
      | Some v \<Rightarrow> if v = [] then None else Some v)"
  by (auto simp add: forwardHeadersA_def split: option.splits)

lemma forwardHeadersA_cong:
  "header req' ''content-type'' = header req ''content-type'' \<Longrightarrow>
   header req' ''authorization'' = header req ''authorization'' \<Longrightarrow>
   forwardHeadersA req' = forwardHeadersA req"
  by (simp add: forwardHeadersA_def)

lemma routeA_call_headers: "routeA_call eng req = Inr call \<Longrightarrow> callHeaders call = forwardHeadersA req"
  by (auto dest: routeA_call_Inr)

subsection \<open>The handlers\<close>

lemma tryCatch_forward:
  "tryCatch (forward prepared upstream) =
     (case prepared of
        Inl err \<Rightarrow> (None, Inr (proxyError err))
      | Inr call \<Rightarrow>
          (case upstream of
             Inl err \<Rightarrow> (Some call, Inr (proxyError err))
           | Inr up \<Rightarrow> (Some call, Inr (passThrough up))))"
  by (simp add: tryCatch_def forward_def catchBlock_def split: sum.splits)


lemma app_answers: "\<exists>call r. app eng parseError upstream req = (call, Inr r)"
  by (simp add: app_def dispatch_def routeA_def routeB_def tryCatch_forward
      split: option.splits sum.splits)

lemma serve_listening:
  "serve eng Listening inbounds = (outs, p) \<Longrightarrow>
   p = Listening \<and>
   list_all2 (\<lambda>(parseError, upstream, req) (call, answer).
       \<exists>r. answer = Some r \<and> app eng parseError upstream req = (call, Inr r)) inbounds outs"
proof (induction inbounds arbitrary: outs p)
  case Nil
  then show ?case by simp
next
  case (Cons inbound rest)
  obtain parseError upstream req where i: "inbound = (parseError, upstream, req)"
    by (cases inbound)
  from app_answers obtain call r where a: "app eng parseError upstream req = (call, Inr r)"
    by blast
  obtain outs' p' where s: "serve eng Listening rest = (outs', p')"
    by (cases "serve eng Listening rest")
  from Cons.IH [OF s] Cons.prems i a s show ?case by auto
qed

subsection \<open>The examples\<close>

lemmas route_defs = routeA_call_def patchedMessages_def PATCHED_MODEL_ID_def GOOGLE_BASE_URL_def
  restProps_def forwardHeadersA_def header_def exampleRequest_def lookupProp_def parsedBody_def
  logRequest_def templateString_def stringify_def outboundObject_def indexFirst_def isIndexKey_def
  isDigit_def exampleEngine_def postRequest_def

lemma jsonDocument_exampleMessages: "map jsonDocument exampleMessages = exampleMessages"
  by (simp add: exampleMessages_def exampleToolCall_def signedToolCall_def)


lemma nesting_exampleMessages: "foldr (\<lambda>x. max (nesting x)) exampleMessages 0 = 5"
  by (simp add: exampleMessages_def exampleToolCall_def signedToolCall_def)


lemma example_other_model:
  "routeA_call exampleEngine (exampleRequest ''gpt-4o'') =
     Inr \<lparr> callUrl = ''https://generativelanguage.googleapis.com/v1beta/openai/chat/completions'',
           callMethod = ''POST'',
           callHeaders = [(''content-type'', ''application/json''), (''authorization'', ''Bearer T'')],
           callBody = Some (JObj [(''messages'', JArr exampleMessages), (''model'', JStr ''gpt-4o''),
                                  (''stream'', JBool True)]) \<rparr>"
  by (simp add: route_defs jsonDocument_exampleMessages nesting_exampleMessages)


section \<open>The transform\<close>

text \<open>
  C1, as the code has it. In an assistant message that the transform processes,
  a tool call that already carries a non-empty
  \<^verbatim>\<open>extra_content.google.thought_signature\<close> (one that passes the
  truthiness test, which for a string means that it is not empty) is returned
  unchanged; any other tool call comes back as an object whose
  \<^verbatim>\<open>extra_content\<close> is replaced whole by the bypass object, so that
  \<^verbatim>\<open>extra_content.google.thought_signature\<close> is the string
  \<^verbatim>\<open>skip_thought_signature_validator\<close> and nothing else is left under
  \<^verbatim>\<open>extra_content\<close>, and whose properties other than
  \<^verbatim>\<open>extra_content\<close> are those of the tool call, with their values and
  in their order.
\<close>

theorem tool_call_signatures:
  assumes "injectThoughtSignatures (Some (JArr msgs)) = Inr out"
    and "i < length msgs"
    and "lookupProp (msgs ! i) ''role'' = Some (JStr ''assistant'')"
    and "lookupProp (msgs ! i) ''tool_calls'' = Some (JArr tcs)"
    and "j < length tcs"
  shows "\<exists>outs tcs'. out = Some (JArr outs) \<and> length outs = length msgs \<and>
           lookupProp (outs ! i) ''tool_calls'' = Some (JArr tcs') \<and> length tcs' = length tcs \<and>
           (if truthy (existingSignature (tcs ! j)) then tcs' ! j = tcs ! j
            else \<exists>props. tcs' ! j = JObj props \<and>
                   map_of props ''extra_content'' =
                     Some (JObj [(''google'', JObj [(''thought_signature'', JStr ''skip_thought_signature_validator'')])]) \<and>
                   existingSignature (tcs' ! j) = Some (JStr ''skip_thought_signature_validator'') \<and>
                   filter (\<lambda>p. fst p \<noteq> ''extra_content'') props =
                     filter (\<lambda>p. fst p \<noteq> ''extra_content'') (ownProps (tcs ! j)))"
proof -
  from assms(1) obtain outs where o: "out = Some (JArr outs)" and m: "mapE patchMessage msgs = Inr outs"
    by (auto dest: inject_array_Inr)
  from m assms(2) have "patchMessage (msgs ! i) = Inr (outs ! i)" by (rule mapE_Inr_nth)
  with assms(3,4) have oi: "outs ! i = JObj (setProp ''tool_calls'' (JArr (map patchToolCall tcs)) (ownProps (msgs ! i)))"
    by (simp add: patchMessage_patched)
  have t: "lookupProp (outs ! i) ''tool_calls'' = Some (JArr (map patchToolCall tcs))"
    unfolding oi by (simp add: lookupProp_def map_of_setProp)
  have n: "map patchToolCall tcs ! j = patchToolCall (tcs ! j)"
    using assms(5) by simp
  show ?thesis
    using o mapE_Inr_length [OF m] t n patchToolCall_cases [of "tcs ! j"]
    by (intro exI [of _ outs] exI [of _ "map patchToolCall tcs"]) (simp split: if_splits)
qed

text \<open>
  In the example the first tool call has no signature and receives the bypass
  signature, its \<^verbatim>\<open>id\<close> and \<^verbatim>\<open>function\<close> as before; the second
  has one and is returned as it was.
\<close>

theorem tool_call_signatures_witness:
  "injectThoughtSignatures (Some (JArr exampleMessages)) = Inr (Some (JArr patchedExample)) \<and>
   Suc 0 < length exampleMessages \<and>
   lookupProp (exampleMessages ! Suc 0) ''role'' = Some (JStr ''assistant'') \<and>
   lookupProp (exampleMessages ! Suc 0) ''tool_calls'' = Some (JArr [exampleToolCall, signedToolCall]) \<and>
   0 < length [exampleToolCall, signedToolCall] \<and>
   \<not> truthy (existingSignature exampleToolCall) \<and>
   truthy (existingSignature signedToolCall) \<and>
   (\<exists>outs tcs'. Some (JArr patchedExample) = Some (JArr outs) \<and>
      lookupProp (outs ! Suc 0) ''tool_calls'' = Some (JArr tcs') \<and>
      (\<exists>props. tcs' ! 0 = JObj props \<and>
         existingSignature (tcs' ! 0) = Some (JStr ''skip_thought_signature_validator'') \<and>
         filter (\<lambda>p. fst p \<noteq> ''extra_content'') props = [(''id'', JStr ''1''), (''function'', JObj [])])) \<and>
   (\<exists>outs tcs'. Some (JArr patchedExample) = Some (JArr outs) \<and>
      lookupProp (outs ! Suc 0) ''tool_calls'' = Some (JArr tcs') \<and>
      tcs' ! Suc 0 = signedToolCall)"
proof -
  have h1: "injectThoughtSignatures (Some (JArr exampleMessages)) = Inr (Some (JArr patchedExample))"
    by (rule inject_example)
  have h2: "Suc 0 < length exampleMessages"
    by (simp add: exampleMessages_def)
  have h3: "lookupProp (exampleMessages ! Suc 0) ''role'' = Some (JStr ''assistant'')"
    by (simp add: exampleMessages_def lookupProp_def)
  have h4: "lookupProp (exampleMessages ! Suc 0) ''tool_calls'' = Some (JArr [exampleToolCall, signedToolCall])"
    by (simp add: exampleMessages_def lookupProp_def)
  have h5: "0 < length [exampleToolCall, signedToolCall]" and h6: "Suc 0 < length [exampleToolCall, signedToolCall]"
    by simp_all
  have f: "\<not> truthy (existingSignature exampleToolCall)"
    by (simp add: existingSignature_def exampleToolCall_def lookupProp_def)
  have t: "truthy (existingSignature signedToolCall)"
    by (simp add: existingSignature_def signedToolCall_def lookupProp_def)
  have o: "ownProps exampleToolCall = [(''id'', JStr ''1''), (''function'', JObj [])]"
    by (simp add: exampleToolCall_def)
  from tool_call_signatures [OF h1 h2 h3 h4 h5] f o
  have a: "\<exists>outs tcs'. Some (JArr patchedExample) = Some (JArr outs) \<and>
      lookupProp (outs ! Suc 0) ''tool_calls'' = Some (JArr tcs') \<and>
      (\<exists>props. tcs' ! 0 = JObj props \<and>
         existingSignature (tcs' ! 0) = Some (JStr ''skip_thought_signature_validator'') \<and>
         filter (\<lambda>p. fst p \<noteq> ''extra_content'') props = [(''id'', JStr ''1''), (''function'', JObj [])])"
    by simp blast
  from tool_call_signatures [OF h1 h2 h3 h4 h6] t
  have b: "\<exists>outs tcs'. Some (JArr patchedExample) = Some (JArr outs) \<and>
      lookupProp (outs ! Suc 0) ''tool_calls'' = Some (JArr tcs') \<and>
      tcs' ! Suc 0 = signedToolCall"
    by simp blast
  from h1 h2 h3 h4 h5 f t a b show ?thesis by blast
qed

text \<open>
  A tool call without a signature that holds other things under
  \<^verbatim>\<open>extra_content\<close> loses them: \<^verbatim>\<open>extra_content.vendor\<close> and
  \<^verbatim>\<open>extra_content.google.keep\<close> are not in the result.
\<close>

theorem extra_content_siblings_dropped:
  "injectThoughtSignatures
     (Some (JArr [JObj [(''role'', JStr ''assistant''), (''tool_calls'', JArr [vendorToolCall])]])) =
     Inr (Some (JArr [JObj [(''role'', JStr ''assistant''),
       (''tool_calls'', JArr
          [JObj [(''id'', JStr ''3''),
                 (''extra_content'',
                  JObj [(''google'', JObj [(''thought_signature'', JStr ''skip_thought_signature_validator'')])])]])]])) \<and>
   optProp (optProp (Some vendorToolCall) ''extra_content'') ''vendor'' = Some (JStr ''x'') \<and>
   optProp (optProp (optProp (Some vendorToolCall) ''extra_content'') ''google'') ''keep'' = Some (JStr ''k'') \<and>
   optProp (optProp (Some
      (JObj [(''id'', JStr ''3''),
             (''extra_content'',
              JObj [(''google'', JObj [(''thought_signature'', JStr ''skip_thought_signature_validator'')])])]))
      ''extra_content'') ''vendor'' = None \<and>
   optProp (optProp (optProp (Some
      (JObj [(''id'', JStr ''3''),
             (''extra_content'',
              JObj [(''google'', JObj [(''thought_signature'', JStr ''skip_thought_signature_validator'')])])]))
      ''extra_content'') ''google'') ''keep'' = None"
  by (simp add: injectThoughtSignatures_def patchMessage_def patchToolCall_def existingSignature_def
      lookupProp_def bypassContent_def BYPASS_SIGNATURE_def vendorToolCall_def)

text \<open>
  C3. Applying the transform to its own result gives that result again:
  running it twice in succession yields what running it once yields, for every
  input, a throw of the first run included.
\<close>

theorem injectThoughtSignatures_idempotent:
  "(case injectThoughtSignatures M of
      Inl e \<Rightarrow> Inl e
    | Inr M' \<Rightarrow> injectThoughtSignatures M') = injectThoughtSignatures M"
  by (cases "injectThoughtSignatures M") (simp_all add: inject_fixed)

text \<open>On the example the first run changes the messages and the second does not.\<close>

theorem injectThoughtSignatures_idempotent_witness:
  "injectThoughtSignatures (Some (JArr exampleMessages)) = Inr (Some (JArr patchedExample)) \<and>
   patchedExample \<noteq> exampleMessages \<and>
   injectThoughtSignatures (Some (JArr patchedExample)) = Inr (Some (JArr patchedExample))"
proof -
  have h: "injectThoughtSignatures (Some (JArr exampleMessages)) = Inr (Some (JArr patchedExample))"
    by (rule inject_example)
  from injectThoughtSignatures_idempotent [of "Some (JArr exampleMessages)"] h
  have "injectThoughtSignatures (Some (JArr patchedExample)) = Inr (Some (JArr patchedExample))"
    by simp
  with h patchedExample_differs show ?thesis by simp
qed

text \<open>
  C5. A messages array with a null element, as the JSON body
  \<^verbatim>\<open>{"model":"models/gemini-3.1-pro-preview-customtools","messages":[null]}\<close>
  delivers it, makes \<^verbatim>\<open>injectThoughtSignatures\<close> throw a TypeError at
  \<^verbatim>\<open>message.role\<close> instead of returning an array of the same length; the
  route then answers 502 without calling upstream.
\<close>

theorem injectThoughtSignatures_null_message_throws:
  "injectThoughtSignatures (Some (JArr [JNull])) =
     Inl (TypeError (''Cannot read properties of null (reading '' @ [CHR 0x27] @ ''role'' @ [CHR 0x27] @ '')'')) \<and>
   routeA eng upstream
     \<lparr> reqMethod = ''POST'', path = ''/v1beta/openai/v1/chat/completions'',
       url = ''/v1beta/openai/v1/chat/completions'',
       headers = [(''content-type'', ''application/json'')],
       body = Some (JObj [(''model'', JStr ''models/gemini-3.1-pro-preview-customtools''),
                          (''messages'', JArr [JNull])]) \<rparr> =
     (None, Inr (ProxyError 502
        (JObj [(''error'', JStr ''proxy_error''),
               (''details'', JStr (''Cannot read properties of null (reading '' @ [CHR 0x27] @ ''role'' @ [CHR 0x27] @ '')''))])))"
  by (simp add: injectThoughtSignatures_def patchMessage_def routeA_def routeA_call_def tryCatch_forward
      patchedMessages_def PATCHED_MODEL_ID_def parsedBody_def lookupProp_def proxyError_def)

text \<open>
  C6. When the transform returns, a message whose \<^verbatim>\<open>role\<close> is not
  \<^verbatim>\<open>"assistant"\<close>, or whose \<^verbatim>\<open>tool_calls\<close> is absent or not an
  array, is returned unchanged; every other message comes back as an object
  whose properties other than \<^verbatim>\<open>tool_calls\<close> are those of the message,
  with their values and in their order.
\<close>

theorem selective_mutation:
  assumes "injectThoughtSignatures (Some (JArr msgs)) = Inr out"
    and "i < length msgs"
  shows "\<exists>outs. out = Some (JArr outs) \<and> length outs = length msgs \<and>
           (if lookupProp (msgs ! i) ''role'' \<noteq> Some (JStr ''assistant'') \<or>
               \<not> isArray (lookupProp (msgs ! i) ''tool_calls'')
            then outs ! i = msgs ! i
            else \<exists>props. outs ! i = JObj props \<and>
                   filter (\<lambda>p. fst p \<noteq> ''tool_calls'') props =
                     filter (\<lambda>p. fst p \<noteq> ''tool_calls'') (ownProps (msgs ! i)) \<and>
                   (\<forall>k. k \<noteq> ''tool_calls'' \<longrightarrow> lookupProp (outs ! i) k = lookupProp (msgs ! i) k))"
proof -
  from assms(1) obtain outs where o: "out = Some (JArr outs)" and m: "mapE patchMessage msgs = Inr outs"
    by (auto dest: inject_array_Inr)
  from m assms(2) have p: "patchMessage (msgs ! i) = Inr (outs ! i)" by (rule mapE_Inr_nth)
  then have nn: "msgs ! i \<noteq> JNull" by (rule patchMessage_Inr_nonnull)
  have "if lookupProp (msgs ! i) ''role'' \<noteq> Some (JStr ''assistant'') \<or>
               \<not> isArray (lookupProp (msgs ! i) ''tool_calls'')
            then outs ! i = msgs ! i
            else \<exists>props. outs ! i = JObj props \<and>
                   filter (\<lambda>p. fst p \<noteq> ''tool_calls'') props =
                     filter (\<lambda>p. fst p \<noteq> ''tool_calls'') (ownProps (msgs ! i)) \<and>
                   (\<forall>k. k \<noteq> ''tool_calls'' \<longrightarrow> lookupProp (outs ! i) k = lookupProp (msgs ! i) k)"
  proof (cases "lookupProp (msgs ! i) ''role'' \<noteq> Some (JStr ''assistant'') \<or>
               \<not> isArray (lookupProp (msgs ! i) ''tool_calls'')")
    case True
    with nn have "patchMessage (msgs ! i) = Inr (msgs ! i)" by (rule patchMessage_unchanged)
    with p True show ?thesis by simp
  next
    case False
    then obtain tcs where r: "lookupProp (msgs ! i) ''role'' = Some (JStr ''assistant'')"
      and t: "lookupProp (msgs ! i) ''tool_calls'' = Some (JArr tcs)"
      by (auto simp add: isArray_iff)
    from p have oi: "outs ! i = JObj (setProp ''tool_calls'' (JArr (map patchToolCall tcs)) (ownProps (msgs ! i)))"
      by (simp add: patchMessage_patched [OF r t])
    have "\<forall>k. k \<noteq> ''tool_calls'' \<longrightarrow> lookupProp (outs ! i) k = lookupProp (msgs ! i) k"
      unfolding oi by (simp add: lookupProp_def map_of_setProp)
    with False oi show ?thesis by (simp add: filter_setProp)
  qed
  with o mapE_Inr_length [OF m] show ?thesis by blast
qed

text \<open>
  In the example the user message is returned as it was, and the assistant
  message keeps its \<^verbatim>\<open>role\<close>.
\<close>

theorem selective_mutation_witness:
  "injectThoughtSignatures (Some (JArr exampleMessages)) = Inr (Some (JArr patchedExample)) \<and>
   0 < length exampleMessages \<and> Suc 0 < length exampleMessages \<and>
   lookupProp (exampleMessages ! 0) ''role'' \<noteq> Some (JStr ''assistant'') \<and>
   patchedExample ! 0 = exampleMessages ! 0 \<and>
   (\<exists>props. patchedExample ! Suc 0 = JObj props \<and>
      filter (\<lambda>p. fst p \<noteq> ''tool_calls'') props = [(''role'', JStr ''assistant'')])"
proof -
  have h1: "injectThoughtSignatures (Some (JArr exampleMessages)) = Inr (Some (JArr patchedExample))"
    by (rule inject_example)
  have h2: "0 < length exampleMessages" and h3: "Suc 0 < length exampleMessages"
    by (simp_all add: exampleMessages_def)
  have r0: "lookupProp (exampleMessages ! 0) ''role'' \<noteq> Some (JStr ''assistant'')"
    by (simp add: exampleMessages_def lookupProp_def)
  have r1: "lookupProp (exampleMessages ! Suc 0) ''role'' = Some (JStr ''assistant'')"
    and t1: "isArray (lookupProp (exampleMessages ! Suc 0) ''tool_calls'')"
    and o1: "ownProps (exampleMessages ! Suc 0) =
       [(''role'', JStr ''assistant''), (''tool_calls'', JArr [exampleToolCall, signedToolCall])]"
    by (simp_all add: exampleMessages_def lookupProp_def)
  from selective_mutation [OF h1 h2] r0 have a: "patchedExample ! 0 = exampleMessages ! 0"
    by auto
  from selective_mutation [OF h1 h3] r1 t1 o1
  have b: "\<exists>props. patchedExample ! Suc 0 = JObj props \<and>
      filter (\<lambda>p. fst p \<noteq> ''tool_calls'') props = [(''role'', JStr ''assistant'')]"
    by auto
  from h1 h2 h3 r0 a b show ?thesis by blast
qed

section \<open>The intercept route\<close>










text \<open>
  C8, as the code has it. The outbound call of the intercept route carries
  \<^verbatim>\<open>content-type\<close> and at most \<^verbatim>\<open>authorization\<close>, each once and
  nothing else: \<^verbatim>\<open>content-type\<close> is the inbound value when that is
  present and not empty, and \<^verbatim>\<open>application/json\<close> otherwise;
  \<^verbatim>\<open>authorization\<close> is forwarded, byte for byte, exactly when it is present
  inbound with a value that is not empty. Two requests that agree on these two
  inbound headers send the same outbound headers, whatever else they carry.
\<close>

theorem header_allow_list:
  assumes "routeA_call eng req = Inr call"
  shows "fst ` set (callHeaders call) \<subseteq> {''content-type'', ''authorization''} \<and>
         distinct (map fst (callHeaders call)) \<and>
         map_of (callHeaders call) ''content-type'' =
           Some (case header req ''content-type'' of
                   None \<Rightarrow> ''application/json''
                 | Some v \<Rightarrow> if v = [] then ''application/json'' else v) \<and>
         map_of (callHeaders call) ''authorization'' =
           (case header req ''authorization'' of
              None \<Rightarrow> None
            | Some v \<Rightarrow> if v = [] then None else Some v) \<and>
         (\<forall>eng' req' call'. routeA_call eng' req' = Inr call' \<and>
             header req' ''content-type'' = header req ''content-type'' \<and>
             header req' ''authorization'' = header req ''authorization'' \<longrightarrow>
             callHeaders call' = callHeaders call)"
  using assms
  by (auto simp add: routeA_call_headers forwardHeadersA_distinct
      forwardHeadersA_content_type forwardHeadersA_authorization
      intro: forwardHeadersA_cong dest!: forwardHeadersA_keys [THEN subsetD])

text \<open>
  The example request carries \<^verbatim>\<open>x-custom: secret\<close>,
  \<^verbatim>\<open>authorization: Bearer T\<close> and \<^verbatim>\<open>content-type: application/json\<close>;
  the last two go out and the first does not.
\<close>

theorem header_allow_list_witness:
  "routeA_call exampleEngine (exampleRequest ''gpt-4o'') =
     Inr \<lparr> callUrl = ''https://generativelanguage.googleapis.com/v1beta/openai/chat/completions'',
           callMethod = ''POST'',
           callHeaders = [(''content-type'', ''application/json''), (''authorization'', ''Bearer T'')],
           callBody = Some (JObj [(''messages'', JArr exampleMessages), (''model'', JStr ''gpt-4o''),
                                  (''stream'', JBool True)]) \<rparr> \<and>
   header (exampleRequest ''gpt-4o'') ''x-custom'' = Some ''secret'' \<and>
   map_of [(''content-type'', ''application/json''), (''authorization'', ''Bearer T'')] ''x-custom'' = None \<and>
   map_of [(''content-type'', ''application/json''), (''authorization'', ''Bearer T'')] ''content-type'' =
     Some ''application/json'' \<and>
   map_of [(''content-type'', ''application/json''), (''authorization'', ''Bearer T'')] ''authorization'' =
     Some ''Bearer T''"
proof -
  have x: "header (exampleRequest ''gpt-4o'') ''x-custom'' = Some ''secret''"
    and c: "header (exampleRequest ''gpt-4o'') ''content-type'' = Some ''application/json''"
    and a: "header (exampleRequest ''gpt-4o'') ''authorization'' = Some ''Bearer T''"
    by (simp_all add: header_def exampleRequest_def)
  from header_allow_list [OF example_other_model] c a
  have "map_of [(''content-type'', ''application/json''), (''authorization'', ''Bearer T'')] ''content-type'' =
     Some ''application/json'' \<and>
   map_of [(''content-type'', ''application/json''), (''authorization'', ''Bearer T'')] ''authorization'' =
     Some ''Bearer T''"
    by simp
  with x example_other_model show ?thesis by simp
qed

text \<open>
  An \<^verbatim>\<open>authorization\<close> header that is present with an empty value is not
  forwarded.
\<close>

theorem empty_authorization_not_forwarded:
  "header \<lparr> reqMethod = ''POST'', path = ''/v1beta/openai/v1/chat/completions'',
            url = ''/v1beta/openai/v1/chat/completions'',
            headers = [(''authorization'', ''''), (''content-type'', ''application/json'')],
            body = Some (JObj [(''model'', JStr ''gpt-4o''), (''messages'', JArr [])]) \<rparr> ''authorization'' = Some '''' \<and>
   routeA_call exampleEngine \<lparr> reqMethod = ''POST'', path = ''/v1beta/openai/v1/chat/completions'',
            url = ''/v1beta/openai/v1/chat/completions'',
            headers = [(''authorization'', ''''), (''content-type'', ''application/json'')],
            body = Some (JObj [(''model'', JStr ''gpt-4o''), (''messages'', JArr [])]) \<rparr> =
     Inr \<lparr> callUrl = ''https://generativelanguage.googleapis.com/v1beta/openai/chat/completions'',
           callMethod = ''POST'',
           callHeaders = [(''content-type'', ''application/json'')],
           callBody = Some (JObj [(''messages'', JArr []), (''model'', JStr ''gpt-4o'')]) \<rparr>"
  by (simp add: route_defs)

section \<open>Failures\<close>

text \<open>
  C9. On either route, a failure while the outbound call is built (patching the
  messages, writing the log line or serialising the body throws) or issued
  (\<^verbatim>\<open>fetch\<close> rejects) is caught and ends in the response with status
  502 and the JSON body
  \<^verbatim>\<open>{"error":"proxy_error","details":<message of the error>}\<close>. No error
  leaves a handler, so the process is still listening after any run of requests,
  and each of them has received the answer that handling it alone gives.
\<close>

theorem failures_become_502:
  "(\<forall>e. routeA_call eng req = Inl e \<longrightarrow>
      routeA eng upstream req =
        (None, Inr (ProxyError 502 (JObj [(''error'', JStr ''proxy_error''), (''details'', JStr (message e))])))) \<and>
   (\<forall>call e. routeA_call eng req = Inr call \<and> upstream = Inl e \<longrightarrow>
      routeA eng upstream req =
        (Some call, Inr (ProxyError 502 (JObj [(''error'', JStr ''proxy_error''), (''details'', JStr (message e))])))) \<and>
   (\<forall>e. routeB_call eng req = Inl e \<longrightarrow>
      routeB eng upstream req =
        (None, Inr (ProxyError 502 (JObj [(''error'', JStr ''proxy_error''), (''details'', JStr (message e))])))) \<and>
   (\<forall>call e. routeB_call eng req = Inr call \<and> upstream = Inl e \<longrightarrow>
      routeB eng upstream req =
        (Some call, Inr (ProxyError 502 (JObj [(''error'', JStr ''proxy_error''), (''details'', JStr (message e))])))) \<and>
   (\<forall>parseError. \<exists>call r. app eng parseError upstream req = (call, Inr r)) \<and>
   (\<forall>inbounds outs p.
      serve eng Listening (inbounds :: (parseFailure option \<times> (error + 's upstreamResponse) \<times> request) list) = (outs, p) \<longrightarrow>
      p = Listening \<and>
      list_all2 (\<lambda>(parseError, upstream, req) (call, answer).
          \<exists>r. answer = Some r \<and> app eng parseError upstream req = (call, Inr r)) inbounds outs)"
proof (intro conjI allI impI)
  fix e assume "routeA_call eng req = Inl e"
  then show "routeA eng upstream req =
        (None, Inr (ProxyError 502 (JObj [(''error'', JStr ''proxy_error''), (''details'', JStr (message e))])))"
    by (simp add: routeA_def tryCatch_forward proxyError_def)
next
  fix call e assume "routeA_call eng req = Inr call \<and> upstream = Inl e"
  then show "routeA eng upstream req =
        (Some call, Inr (ProxyError 502 (JObj [(''error'', JStr ''proxy_error''), (''details'', JStr (message e))])))"
    by (simp add: routeA_def tryCatch_forward proxyError_def)
next
  fix e assume "routeB_call eng req = Inl e"
  then show "routeB eng upstream req =
        (None, Inr (ProxyError 502 (JObj [(''error'', JStr ''proxy_error''), (''details'', JStr (message e))])))"
    by (simp add: routeB_def tryCatch_forward proxyError_def)
next
  fix call e assume "routeB_call eng req = Inr call \<and> upstream = Inl e"
  then show "routeB eng upstream req =
        (Some call, Inr (ProxyError 502 (JObj [(''error'', JStr ''proxy_error''), (''details'', JStr (message e))])))"
    by (simp add: routeB_def tryCatch_forward proxyError_def)
next
  fix parseError
  show "\<exists>call r. app eng parseError upstream req = (call, Inr r)"
    by (rule app_answers)
next
  fix inbounds :: "(parseFailure option \<times> (error + 's upstreamResponse) \<times> request) list"
  fix outs p
  assume "serve eng Listening inbounds = (outs, p)"
  then show "p = Listening"
    by (rule serve_listening [THEN conjunct1])
next
  fix inbounds :: "(parseFailure option \<times> (error + 's upstreamResponse) \<times> request) list"
  fix outs p
  assume "serve eng Listening inbounds = (outs, p)"
  then show "list_all2 (\<lambda>(parseError, upstream, req) (call, answer).
          \<exists>r. answer = Some r \<and> app eng parseError upstream req = (call, Inr r)) inbounds outs"
    by (rule serve_listening [THEN conjunct2])
qed

text \<open>
  A refused connection on the intercept route and on the passthrough route, a
  model whose conversion to a string throws in the log line, and a body that
  nests deeper than the engine can serialise on the passthrough route; the
  process answers the three requests, each with status 502, and is still
  listening.
\<close>

theorem failures_become_502_witness:
  "routeA exampleEngine (Inl (FetchError ''connect ECONNREFUSED'') :: error + unit upstreamResponse)
     (exampleRequest ''gpt-4o'') =
     (Some \<lparr> callUrl = ''https://generativelanguage.googleapis.com/v1beta/openai/chat/completions'',
             callMethod = ''POST'',
             callHeaders = [(''content-type'', ''application/json''), (''authorization'', ''Bearer T'')],
             callBody = Some (JObj [(''messages'', JArr exampleMessages), (''model'', JStr ''gpt-4o''),
                                    (''stream'', JBool True)]) \<rparr>,
      Inr (ProxyError 502 (JObj [(''error'', JStr ''proxy_error''), (''details'', JStr ''connect ECONNREFUSED'')]))) \<and>
   routeB exampleEngine (Inl (FetchError ''connect ECONNREFUSED'') :: error + unit upstreamResponse)
     \<lparr> reqMethod = ''GET'', path = ''/v1beta/openai/models'', url = ''/v1beta/openai/models?pageSize=5'',
       headers = [(''authorization'', ''Bearer T''), (''host'', ''localhost:3000'')], body = None \<rparr> =
     (Some \<lparr> callUrl = ''https://generativelanguage.googleapis.com/v1beta/openai/models?pageSize=5'',
             callMethod = ''GET'',
             callHeaders = [(''authorization'', ''Bearer T'')],
             callBody = None \<rparr>,
      Inr (ProxyError 502 (JObj [(''error'', JStr ''proxy_error''), (''details'', JStr ''connect ECONNREFUSED'')]))) \<and>
   routeA exampleEngine upstreamOk (postRequest (JObj [(''model'', JObj [(''toString'', JNum (Finite 1))])])) =
     (None, Inr (ProxyError 502 (JObj [(''error'', JStr ''proxy_error''),
                                       (''details'', JStr ''Cannot convert object to primitive value'')]))) \<and>
   routeB tinyEngine upstreamOk
     \<lparr> reqMethod = ''POST'', path = ''/v1beta/models/m:countTokens'', url = ''/v1beta/models/m:countTokens'',
       headers = [(''content-type'', ''application/json'')],
       body = Some (JArr [JArr [JArr [JArr []]]]) \<rparr> =
     (None, Inr (ProxyError 502 (JObj [(''error'', JStr ''proxy_error''),
                                       (''details'', JStr ''Maximum call stack size exceeded'')]))) \<and>
   serve exampleEngine Listening
     [(None, Inl (FetchError ''connect ECONNREFUSED''), exampleRequest ''gpt-4o''),
      (None, upstreamOk, postRequest (JObj [(''model'', JObj [(''toString'', JNum (Finite 1))])])),
      (None, Inl (FetchError ''connect ECONNREFUSED''),
       \<lparr> reqMethod = ''GET'', path = ''/v1beta/openai/models'', url = ''/v1beta/openai/models?pageSize=5'',
         headers = [(''authorization'', ''Bearer T''), (''host'', ''localhost:3000'')], body = None \<rparr>)] =
     ([(Some \<lparr> callUrl = ''https://generativelanguage.googleapis.com/v1beta/openai/chat/completions'',
               callMethod = ''POST'',
               callHeaders = [(''content-type'', ''application/json''), (''authorization'', ''Bearer T'')],
               callBody = Some (JObj [(''messages'', JArr exampleMessages), (''model'', JStr ''gpt-4o''),
                                      (''stream'', JBool True)]) \<rparr>,
        Some (ProxyError 502 (JObj [(''error'', JStr ''proxy_error''), (''details'', JStr ''connect ECONNREFUSED'')]))),
       (None,
        Some (ProxyError 502 (JObj [(''error'', JStr ''proxy_error''),
                                    (''details'', JStr ''Cannot convert object to primitive value'')]))),
       (Some \<lparr> callUrl = ''https://generativelanguage.googleapis.com/v1beta/openai/models?pageSize=5'',
               callMethod = ''GET'',
               callHeaders = [(''authorization'', ''Bearer T'')],
               callBody = None \<rparr>,
        Some (ProxyError 502 (JObj [(''error'', JStr ''proxy_error''), (''details'', JStr ''connect ECONNREFUSED'')])))],
      Listening)"
proof -
  let ?up = "Inl (FetchError ''connect ECONNREFUSED'') :: error + unit upstreamResponse"
  let ?get = "\<lparr> reqMethod = ''GET'', path = ''/v1beta/openai/models'', url = ''/v1beta/openai/models?pageSize=5'',
       headers = [(''authorization'', ''Bearer T''), (''host'', ''localhost:3000'')], body = None \<rparr>"
  let ?bad = "postRequest (JObj [(''model'', JObj [(''toString'', JNum (Finite 1))])])"
  let ?deep = "\<lparr> reqMethod = ''POST'', path = ''/v1beta/models/m:countTokens'', url = ''/v1beta/models/m:countTokens'',
       headers = [(''content-type'', ''application/json'')],
       body = Some (JArr [JArr [JArr [JArr []]]]) \<rparr>"
  have c: "routeB_call exampleEngine ?get =
     Inr \<lparr> callUrl = ''https://generativelanguage.googleapis.com/v1beta/openai/models?pageSize=5'',
       callMethod = ''GET'', callHeaders = [(''authorization'', ''Bearer T'')], callBody = None \<rparr>"
    by (simp add: routeB_call_def attachedBody_def forwardHeadersB_def header_def GOOGLE_BASE_URL_def)
  have l: "routeA_call exampleEngine ?bad = Inl (TypeError ''Cannot convert object to primitive value'')"
    by (simp add: route_defs)
  have s: "routeB_call tinyEngine ?deep = Inl (RangeError ''Maximum call stack size exceeded'')"
    by (simp add: routeB_call_def attachedBody_def stringify_def tinyEngine_def)
  from failures_become_502 [of exampleEngine "exampleRequest ''gpt-4o''" ?up,
      THEN conjunct2, THEN conjunct1, rule_format, OF conjI [OF example_other_model refl]]
  have a: "routeA exampleEngine ?up (exampleRequest ''gpt-4o'') =
     (Some \<lparr> callUrl = ''https://generativelanguage.googleapis.com/v1beta/openai/chat/completions'',
             callMethod = ''POST'',
             callHeaders = [(''content-type'', ''application/json''), (''authorization'', ''Bearer T'')],
             callBody = Some (JObj [(''messages'', JArr exampleMessages), (''model'', JStr ''gpt-4o''),
                                    (''stream'', JBool True)]) \<rparr>,
      Inr (ProxyError 502 (JObj [(''error'', JStr ''proxy_error''), (''details'', JStr ''connect ECONNREFUSED'')])))"
    by simp
  from failures_become_502 [of exampleEngine ?get ?up,
      THEN conjunct2, THEN conjunct2, THEN conjunct2, THEN conjunct1, rule_format, OF conjI [OF c refl]]
  have b: "routeB exampleEngine ?up ?get =
     (Some \<lparr> callUrl = ''https://generativelanguage.googleapis.com/v1beta/openai/models?pageSize=5'',
             callMethod = ''GET'', callHeaders = [(''authorization'', ''Bearer T'')], callBody = None \<rparr>,
      Inr (ProxyError 502 (JObj [(''error'', JStr ''proxy_error''), (''details'', JStr ''connect ECONNREFUSED'')])))"
    by simp
  from failures_become_502 [of exampleEngine ?bad upstreamOk, THEN conjunct1, rule_format, OF l]
  have d: "routeA exampleEngine upstreamOk ?bad =
     (None, Inr (ProxyError 502 (JObj [(''error'', JStr ''proxy_error''),
                                       (''details'', JStr ''Cannot convert object to primitive value'')])))"
    by simp
  from failures_become_502 [of tinyEngine ?deep upstreamOk,
      THEN conjunct2, THEN conjunct2, THEN conjunct1, rule_format, OF s]
  have e: "routeB tinyEngine upstreamOk ?deep =
     (None, Inr (ProxyError 502 (JObj [(''error'', JStr ''proxy_error''),
                                       (''details'', JStr ''Maximum call stack size exceeded'')])))"
    by simp
  have r1: "app exampleEngine None ?up (exampleRequest ''gpt-4o'') = routeA exampleEngine ?up (exampleRequest ''gpt-4o'')"
    and r2: "app exampleEngine None upstreamOk ?bad = routeA exampleEngine upstreamOk ?bad"
    and r3: "app exampleEngine None ?up ?get = routeB exampleEngine ?up ?get"
    by (simp_all add: app_def dispatch_def matchesClientPath_def CLIENT_PATH_def lowerChar_def
        exampleRequest_def postRequest_def)
  have f: "serve exampleEngine Listening
     [(None, ?up, exampleRequest ''gpt-4o''), (None, upstreamOk, ?bad), (None, ?up, ?get)] =
     ([(Some \<lparr> callUrl = ''https://generativelanguage.googleapis.com/v1beta/openai/chat/completions'',
               callMethod = ''POST'',
               callHeaders = [(''content-type'', ''application/json''), (''authorization'', ''Bearer T'')],
               callBody = Some (JObj [(''messages'', JArr exampleMessages), (''model'', JStr ''gpt-4o''),
                                      (''stream'', JBool True)]) \<rparr>,
        Some (ProxyError 502 (JObj [(''error'', JStr ''proxy_error''), (''details'', JStr ''connect ECONNREFUSED'')]))),
       (None,
        Some (ProxyError 502 (JObj [(''error'', JStr ''proxy_error''),
                                    (''details'', JStr ''Cannot convert object to primitive value'')]))),
       (Some \<lparr> callUrl = ''https://generativelanguage.googleapis.com/v1beta/openai/models?pageSize=5'',
               callMethod = ''GET'',
               callHeaders = [(''authorization'', ''Bearer T'')],
               callBody = None \<rparr>,
        Some (ProxyError 502 (JObj [(''error'', JStr ''proxy_error''), (''details'', JStr ''connect ECONNREFUSED'')])))],
      Listening)"
    by (simp add: r1 r2 r3 a b d)
  from a b d e f show ?thesis by (intro conjI)
qed

text \<open>
  C10, as the code has it. A request whose body \<^verbatim>\<open>express.json\<close> cannot
  parse, or finds over the limit, reaches neither handler: no outbound call is
  made, and the caller receives the answer of Express's final handler with the
  status of the parser's error, 400 or 413. That answer is not the 502 of the
  handlers, and it is not an upstream response.
\<close>

theorem parse_failure_final_handler:
  "app eng (Some failure) upstream req = (None, Inr (FinalHandler (failureStatus failure))) \<and>
   (failureStatus failure = 400 \<or> failureStatus failure = 413) \<and>
   (\<forall>b. snd (app eng (Some failure) upstream req) \<noteq> Inr (ProxyError 502 b)) \<and>
   (\<forall>s ct str. snd (app eng (Some failure) upstream req) \<noteq> Inr (Piped s ct str)) \<and>
   (\<forall>e. snd (app eng (Some failure) upstream req) \<noteq> Inl e)"
  by (cases failure) (simp_all add: app_def)

text \<open>A POST to the intercept route whose body is not JSON is answered with status 400.\<close>

theorem parse_failure_not_502:
  "app exampleEngine (Some Malformed)
     (Inr \<lparr> status = 200, contentType = Some ''application/json'', stream = ''{}'' \<rparr>)
     \<lparr> reqMethod = ''POST'', path = ''/v1beta/openai/v1/chat/completions'',
       url = ''/v1beta/openai/v1/chat/completions'',
       headers = [(''content-type'', ''application/json'')],
       body = None \<rparr> = (None, Inr (FinalHandler 400))"
  by (simp add: app_def)

end
